theory Spec2Isabelle
  imports Main
begin

section \<open>JavaScript strings and the regular expressions of the two components\<close>

text \<open>
  A JavaScript string is a sequence of UTF-16 code units. The patterns of the source
  distinguish code units beyond Latin-1 (the bullet U+2022, the line separators U+2028
  and U+2029), so a string is modelled as a list of code units, each a natural number.
  \<open>js\<close> turns an ASCII literal into such a list.
\<close>

type_synonym jstring = "nat list"

definition js :: "string \<Rightarrow> jstring" where
  "js s = map of_char s"

text \<open>The character classes the patterns use: what \<open>.\<close> excludes, \<open>\s\<close> and \<open>\w\<close>.\<close>

definition is_line_terminator :: "nat \<Rightarrow> bool" where
  "is_line_terminator c = (c = 0x0A \<or> c = 0x0D \<or> c = 0x2028 \<or> c = 0x2029)"

definition is_space :: "nat \<Rightarrow> bool" where
  "is_space c =
     ((0x09 \<le> c \<and> c \<le> 0x0D) \<or> c = 0x20 \<or> c = 0xA0 \<or> c = 0x1680
      \<or> (0x2000 \<le> c \<and> c \<le> 0x200A) \<or> c = 0x2028 \<or> c = 0x2029 \<or> c = 0x202F
      \<or> c = 0x205F \<or> c = 0x3000 \<or> c = 0xFEFF)"

definition is_word_char :: "nat \<Rightarrow> bool" where
  "is_word_char c =
     ((0x30 \<le> c \<and> c \<le> 0x39) \<or> (0x41 \<le> c \<and> c \<le> 0x5A) \<or> c = 0x5F
      \<or> (0x61 \<le> c \<and> c \<le> 0x7A))"

fun starts_with :: "jstring \<Rightarrow> jstring \<Rightarrow> bool" where
  "starts_with [] s = True"
| "starts_with (p # ps) [] = False"
| "starts_with (p # ps) (c # cs) = (p = c \<and> starts_with ps cs)"

text \<open>
  \<open>String.prototype.replace\<close> with a global pattern scans the subject from left to
  right: where the pattern matches, the match is replaced and the scan goes on behind it;
  elsewhere one code unit is copied. A matcher is given the rest of the subject and
  whether the position is at the start of a line (for \<open>^\<close> under the \<open>m\<close> flag),
  and answers the length of the match and its replacement. Every pattern of the source
  matches at least one code unit; \<open>skip\<close> counts the code units of a match still
  to be passed over.
\<close>

type_synonym matcher = "bool \<Rightarrow> jstring \<Rightarrow> (nat \<times> jstring) option"

fun replace_all :: "matcher \<Rightarrow> nat \<Rightarrow> bool \<Rightarrow> jstring \<Rightarrow> jstring" where
  "replace_all m skip bol [] = []"
| "replace_all m (Suc n) bol (c # cs) = replace_all m n (is_line_terminator c) cs"
| "replace_all m 0 bol (c # cs) =
     (case m bol (c # cs) of
        Some (len, r) \<Rightarrow> r @ replace_all m (len - 1) (is_line_terminator c) cs
      | None \<Rightarrow> c # replace_all m 0 (is_line_terminator c) cs)"

definition replace_global :: "matcher \<Rightarrow> jstring \<Rightarrow> jstring" where
  "replace_global m s = replace_all m 0 True s"

text \<open>A literal pattern (\<open>/\n/g\<close>, \<open>/---/g\<close>).\<close>

definition literal :: "jstring \<Rightarrow> jstring \<Rightarrow> matcher" where
  "literal p r bol s = (if starts_with p s then Some (length p, r) else None)"

text \<open>
  \<open>(.*?)\<close> followed by a delimiter: the shortest run of code units, none of them a
  line terminator, after which the delimiter stands.
\<close>

fun lazy_until :: "jstring \<Rightarrow> jstring \<Rightarrow> nat option" where
  "lazy_until d [] = (if starts_with d [] then Some 0 else None)"
| "lazy_until d (c # cs) =
     (if starts_with d (c # cs) then Some 0
      else if is_line_terminator c then None
      else map_option Suc (lazy_until d cs))"

text \<open>\<open>/\*\*(.*?)\*\*/g\<close> and \<open>/\*(.*?)\*/g\<close>: a delimiter, a lazy capture, the delimiter.\<close>

definition delimited :: "jstring \<Rightarrow> jstring \<Rightarrow> jstring \<Rightarrow> matcher" where
  "delimited d opening closing bol s =
     (if starts_with d s then
        (case lazy_until d (drop (length d) s) of
           Some n \<Rightarrow>
             Some (length d + n + length d,
                   opening @ take n (drop (length d) s) @ closing)
         | None \<Rightarrow> None)
      else None)"

text \<open>\<open>/https?:\/\/[^\s<>]+/g\<close>, replaced by an anchor around the match.\<close>

definition url_char :: "nat \<Rightarrow> bool" where
  "url_char c = (\<not> is_space c \<and> c \<noteq> 0x3C \<and> c \<noteq> 0x3E)"

definition url_scheme :: "jstring \<Rightarrow> nat option" where
  "url_scheme s =
     (if starts_with (js ''https://'') s then Some 8
      else if starts_with (js ''http://'') s then Some 7
      else None)"

definition anchor :: "jstring \<Rightarrow> jstring" where
  "anchor u =
     js ''<a href='' @ [0x22] @ u @ [0x22] @ js '' target='' @ [0x22] @ js ''_blank''
       @ [0x22] @ js '' rel='' @ [0x22] @ js ''noopener noreferrer'' @ [0x22] @ js ''>''
       @ u @ js ''</a>''"

definition url :: matcher where
  "url bol s =
     (case url_scheme s of
        None \<Rightarrow> None
      | Some k \<Rightarrow>
          (let run = takeWhile url_char (drop k s)
           in if run = [] then None
              else Some (k + length run, anchor (take (k + length run) s))))"

text \<open>
  \<open>/^p(.*$)/gm\<close> for a literal prefix \<open>p\<close>: at the start of a line, the prefix
  and the rest of the line.
\<close>

definition line_rule :: "jstring \<Rightarrow> jstring \<Rightarrow> jstring \<Rightarrow> matcher" where
  "line_rule p opening closing bol s =
     (if bol \<and> starts_with p s then
        (let body = takeWhile (\<lambda>c. \<not> is_line_terminator c) (drop (length p) s)
         in Some (length p + length body, opening @ body @ closing))
      else None)"

text \<open>
  \<open>/(<li>.*<\/li>)(\s*<li>.*<\/li>)*/g\<close>. The greedy \<open>.*\<close> runs to the end of the
  line and gives back code units until \<open></li>\<close> follows: it ends at the last
  \<open></li>\<close> of the line. \<open>last_index_of d s\<close> is the greatest offset at which \<open>d\<close>
  stands in \<open>s\<close>.
\<close>

fun last_index_of :: "jstring \<Rightarrow> jstring \<Rightarrow> nat option" where
  "last_index_of d [] = (if starts_with d [] then Some 0 else None)"
| "last_index_of d (c # cs) =
     (case last_index_of d cs of
        Some n \<Rightarrow> Some (Suc n)
      | None \<Rightarrow> if starts_with d (c # cs) then Some 0 else None)"

definition li_item :: "jstring \<Rightarrow> nat option" where
  "li_item s =
     (if starts_with (js ''<li>'') s then
        (case last_index_of (js ''</li>'')
                (takeWhile (\<lambda>c. \<not> is_line_terminator c) (drop 4 s)) of
           Some n \<Rightarrow> Some (4 + n + 5)
         | None \<Rightarrow> None)
      else None)"

lemma li_item_pos: "li_item s = Some n \<Longrightarrow> 0 < n \<and> s \<noteq> []"
  by (cases s) (auto simp: li_item_def js_def split: if_splits option.splits)

text \<open>The repeated group: white space, then one more item, as often as that matches.\<close>

function li_run :: "jstring \<Rightarrow> nat" where
  "li_run s =
     (case li_item (dropWhile is_space s) of
        Some n \<Rightarrow>
          length (takeWhile is_space s) + n
            + li_run (drop (length (takeWhile is_space s) + n) s)
      | None \<Rightarrow> 0)"
  by pat_completeness auto
termination
proof (relation "measure length")
  show "wf (measure length)" by simp
next
  fix s n
  assume "li_item (dropWhile is_space s) = Some n"
  then have "0 < n" and "dropWhile is_space s \<noteq> []"
    using li_item_pos by blast+
  then have "0 < n" and "s \<noteq> []" by auto
  then show "(drop (length (takeWhile is_space s) + n) s, s) \<in> measure length"
    by (cases s) auto
qed

declare li_run.simps [simp del]

definition wrap_list :: matcher where
  "wrap_list bol s =
     (case li_item s of
        Some n \<Rightarrow>
          (let total = n + li_run (drop n s)
           in Some (total, js ''<ul>'' @ take total s @ js ''</ul>''))
      | None \<Rightarrow> None)"

subsection \<open>SakhaAI.formatMessage\<close>

definition formatMessage :: "jstring \<Rightarrow> jstring" where
  "formatMessage content =
     (let formatted =
        (replace_global (line_rule (js ''- '') (js ''<li>'') (js ''</li>''))
        (replace_global (line_rule [0x2022, 0x20] (js ''<li>'') (js ''</li>''))
        (replace_global (line_rule (js ''## '') (js ''<h3>'') (js ''</h3>''))
        (replace_global (line_rule (js ''### '') (js ''<h4>'') (js ''</h4>''))
        (replace_global (literal (js ''---'') (js ''<hr>''))
        (replace_global url
        (replace_global (literal [0x0A] (js ''<br>''))
        (replace_global (delimited (js ''*'') (js ''<em>'') (js ''</em>''))
        (replace_global (delimited (js ''**'') (js ''<strong>'') (js ''</strong>''))
           content)))))))))
      in replace_global wrap_list formatted)"


section \<open>JavaScript values\<close>

text \<open>
  The values a parsed JSON document holds, the value \<open>undefined\<close>, and the built-in
  functions an object inherits. \<open>JObj\<close> lists the own properties of a plain object,
  with distinct keys.
\<close>

datatype jsval =
    JUndefined
  | JNull
  | JBool bool
  | JNum int
  | JStr jstring
  | JArr "jsval list"
  | JObj "(jstring \<times> jsval) list"
  | JFun jstring

fun typeof :: "jsval \<Rightarrow> jstring" where
  "typeof JUndefined = js ''undefined''"
| "typeof JNull = js ''object''"
| "typeof (JBool b) = js ''boolean''"
| "typeof (JNum n) = js ''number''"
| "typeof (JStr s) = js ''string''"
| "typeof (JArr xs) = js ''object''"
| "typeof (JObj ps) = js ''object''"
| "typeof (JFun f) = js ''function''"

fun truthy :: "jsval \<Rightarrow> bool" where
  "truthy JUndefined = False"
| "truthy JNull = False"
| "truthy (JBool b) = b"
| "truthy (JNum n) = (n \<noteq> 0)"
| "truthy (JStr s) = (s \<noteq> [])"
| "truthy (JArr xs) = True"
| "truthy (JObj ps) = True"
| "truthy (JFun f) = True"

text \<open>
  What the JavaScript engine adds to the own properties of a plain object is a parameter
  of the model: \<open>host_property v k\<close> is the property \<open>k\<close> that \<open>v\<close> has without
  owning it in the sense of \<open>JObj\<close> (a member of the prototype chain; for an array, a
  function or a primitive, any property at all), and \<open>to_string\<close> is the engine's
  conversion of a value that is not a string to a string.
\<close>

record host =
  host_property :: "jsval \<Rightarrow> jstring \<Rightarrow> jsval option"
  to_string :: "jsval \<Rightarrow> jstring"

text \<open>The operator \<open>k in v\<close> and the property read \<open>v[k]\<close>, for a \<open>v\<close> that is not \<open>null\<close> or \<open>undefined\<close>.\<close>

fun js_in :: "host \<Rightarrow> jsval \<Rightarrow> jstring \<Rightarrow> bool" where
  "js_in h (JObj ps) k =
     (case map_of ps k of
        Some x \<Rightarrow> True
      | None \<Rightarrow> host_property h (JObj ps) k \<noteq> None)"
| "js_in h v k = (host_property h v k \<noteq> None)"

definition inherited :: "host \<Rightarrow> jsval \<Rightarrow> jstring \<Rightarrow> jsval" where
  "inherited h v k = (case host_property h v k of Some x \<Rightarrow> x | None \<Rightarrow> JUndefined)"

fun js_get :: "host \<Rightarrow> jsval \<Rightarrow> jstring \<Rightarrow> jsval" where
  "js_get h (JObj ps) k =
     (case map_of ps k of Some x \<Rightarrow> x | None \<Rightarrow> inherited h (JObj ps) k)"
| "js_get h v k = inherited h v k"

definition js_to_string :: "host \<Rightarrow> jsval \<Rightarrow> jstring" where
  "js_to_string h v = (case v of JStr s \<Rightarrow> s | _ \<Rightarrow> to_string h v)"

section \<open>The localization manager (class I18n)\<close>

subsection \<open>I18n.t\<close>

text \<open>\<open>key.split('.')\<close>: the segments between the dots, at least one.\<close>

fun split_on :: "nat \<Rightarrow> jstring \<Rightarrow> jstring list" where
  "split_on d [] = [[]]"
| "split_on d (c # cs) =
     (if c = d then [] # split_on d cs
      else (case split_on d cs of
              [] \<Rightarrow> [[c]]
            | w # ws \<Rightarrow> (c # w) # ws))"

text \<open>
  The loop over the segments: \<open>None\<close> is the early \<open>return key\<close>, \<open>Some v\<close> the
  value the loop ends with.
\<close>

fun walk :: "host \<Rightarrow> jsval \<Rightarrow> jstring list \<Rightarrow> jsval option" where
  "walk h v [] = Some v"
| "walk h v (k # ks) =
     (if truthy v \<and> typeof v = js ''object'' \<and> js_in h v k
      then walk h (js_get h v k) ks
      else None)"

text \<open>
  \<open>/\{\{(\w+)\}\}/g\<close> with the replacement function
  \<open>(match, param) => params[param] || match\<close>; \<open>params\<close> is a plain object, given
  by its own properties.
\<close>

definition placeholder_name :: "jstring \<Rightarrow> jstring option" where
  "placeholder_name s =
     (if starts_with (js ''{{'') s then
        (let name = takeWhile is_word_char (drop 2 s)
         in if name \<noteq> [] \<and> starts_with (js ''}}'') (drop (2 + length name) s)
            then Some name else None)
      else None)"

definition substitute :: "host \<Rightarrow> (jstring \<times> jsval) list \<Rightarrow> jstring \<Rightarrow> jstring \<Rightarrow> jstring" where
  "substitute h params matched param =
     (let v = js_get h (JObj params) param
      in if truthy v then js_to_string h v else matched)"

text \<open>The pattern, with \<open>f\<close> the replacement function of the match and its capture.\<close>

definition placeholders :: "(jstring \<Rightarrow> jstring \<Rightarrow> jstring) \<Rightarrow> matcher" where
  "placeholders f bol s =
     (case placeholder_name s of
        Some name \<Rightarrow> Some (length name + 4, f (take (length name + 4) s) name)
      | None \<Rightarrow> None)"

definition t :: "host \<Rightarrow> jsval \<Rightarrow> jstring \<Rightarrow> (jstring \<times> jsval) list \<Rightarrow> jsval" where
  "t h table key params =
     (case walk h table (split_on 0x2E key) of
        None \<Rightarrow> JStr key
      | Some v \<Rightarrow>
          (case v of
             JStr s \<Rightarrow> JStr (replace_global (placeholders (substitute h params)) s)
           | _ \<Rightarrow> v))"

subsection \<open>A host for the examples\<close>

text \<open>
  A plain object inherits the function members of \<open>Object.prototype\<close>; nothing else
  has inherited properties. Numbers print in decimal (as the engine prints an integer
  below \<open>10^21\<close>), an array prints its elements separated by commas.
\<close>

definition object_prototype_members :: "jstring list" where
  "object_prototype_members =
     map js [''constructor'', ''hasOwnProperty'', ''isPrototypeOf'',
             ''propertyIsEnumerable'', ''toLocaleString'', ''toString'', ''valueOf'']"

function show_nat :: "nat \<Rightarrow> jstring" where
  "show_nat n = (if n < 10 then [0x30 + n] else show_nat (n div 10) @ [0x30 + n mod 10])"
  by pat_completeness auto
termination
  by (relation "measure id") auto

declare show_nat.simps [simp del]

fun join_with :: "jstring \<Rightarrow> jstring list \<Rightarrow> jstring" where
  "join_with sep [] = []"
| "join_with sep [x] = x"
| "join_with sep (x # y # ys) = x @ sep @ join_with sep (y # ys)"

fun std_to_string :: "jsval \<Rightarrow> jstring" where
  "std_to_string JUndefined = js ''undefined''"
| "std_to_string JNull = js ''null''"
| "std_to_string (JBool b) = (if b then js ''true'' else js ''false'')"
| "std_to_string (JNum n) = (if n < 0 then js ''-'' @ show_nat (nat (- n)) else show_nat (nat n))"
| "std_to_string (JStr s) = s"
| "std_to_string (JArr xs) =
     join_with (js '','')
       (map (\<lambda>x. if x = JNull \<or> x = JUndefined then [] else std_to_string x) xs)"
| "std_to_string (JObj ps) = js ''[object Object]''"
| "std_to_string (JFun f) = js ''function '' @ f @ js ''() { [native code] }''"

definition std_property :: "jsval \<Rightarrow> jstring \<Rightarrow> jsval option" where
  "std_property v k =
     (case v of
        JObj ps \<Rightarrow> if k \<in> set object_prototype_members then Some (JFun k) else None
      | _ \<Rightarrow> None)"

definition std_host :: host where
  "std_host = \<lparr> host_property = std_property, to_string = std_to_string \<rparr>"


subsection \<open>The state of the manager and what it does to its environment\<close>

text \<open>
  The manager holds the current language and the translation table (the field
  \<open>translations\<close> of the source). What it does to the
  page, to persisted storage, to the network and to the document's listeners is recorded,
  in order, in a trace. Writes to the page and to storage are taken to succeed, and
  console output is left out. A \<open>page\<close> lists the elements the three
  \<open>querySelectorAll\<close> calls of \<open>applyTranslations\<close> find, in document order (for a
  \<open>data-i18n\<close> element its tag name and key), and whether the language selector exists.
\<close>

datatype marker = DataI18n | DataI18nPlaceholder

datatype dom_write =
    SetTitle jsval
  | SetPlaceholder marker nat jsval
  | SetTextContent nat jsval
  | SetInnerHTML nat jsval
  | SetSelectorValue jstring

datatype effect =
    StorageSet jstring jstring
  | Fetch jstring
  | Dom dom_write
  | Dispatch jstring jstring

record page =
  data_i18n :: "(jstring \<times> jstring) list"
  data_i18n_html :: "jstring list"
  data_i18n_placeholder :: "jstring list"
  language_selector :: bool

record i18n_state =
  currentLanguage :: jstring
  translationTable :: jsval
  trace :: "effect list"

definition emit :: "effect list \<Rightarrow> i18n_state \<Rightarrow> i18n_state" where
  "emit es st = st\<lparr>trace := trace st @ es\<rparr>"

text \<open>
  A \<open>fetch\<close> either rejects, or resolves to a response with its \<open>ok\<close> flag and the
  outcome of \<open>response.json()\<close> (\<open>None\<close> when the body does not parse). The outcome of
  each request is an input of the model.
\<close>

datatype fetch_result = Rejected | Response bool "jsval option"

definition updateLanguageSelector :: "page \<Rightarrow> i18n_state \<Rightarrow> i18n_state" where
  "updateLanguageSelector pg st =
     (if language_selector pg then emit [Dom (SetSelectorValue (currentLanguage st))] st
      else st)"

definition applyTranslations :: "host \<Rightarrow> page \<Rightarrow> i18n_state \<Rightarrow> i18n_state" where
  "applyTranslations h pg st =
     (let tr = (\<lambda>key. t h (translationTable st) key [])
      in updateLanguageSelector pg
           (emit
              ([Dom (SetTitle (tr (js ''app.title'')))]
               @ map (\<lambda>(i, tag, key).
                        if tag = js ''INPUT'' \<or> tag = js ''TEXTAREA''
                        then Dom (SetPlaceholder DataI18n i (tr key))
                        else Dom (SetTextContent i (tr key)))
                   (enumerate 0 (data_i18n pg))
               @ map (\<lambda>(i, key). Dom (SetInnerHTML i (tr key)))
                   (enumerate 0 (data_i18n_html pg))
               @ map (\<lambda>(i, key). Dom (SetPlaceholder DataI18nPlaceholder i (tr key)))
                   (enumerate 0 (data_i18n_placeholder pg)))
              st))"

definition loadFallbackTranslations ::
    "host \<Rightarrow> page \<Rightarrow> fetch_result \<Rightarrow> i18n_state \<Rightarrow> i18n_state" where
  "loadFallbackTranslations h pg fallback st =
     (let st1 = emit [Fetch (js ''/static/languages/en.json'')] st
      in case fallback of
           Rejected \<Rightarrow> st1
         | Response ok body \<Rightarrow>
             (case body of
                None \<Rightarrow> st1
              | Some doc \<Rightarrow> applyTranslations h pg (st1\<lparr>translationTable := doc\<rparr>)))"

definition loadTranslations ::
    "host \<Rightarrow> page \<Rightarrow> fetch_result \<Rightarrow> fetch_result \<Rightarrow> i18n_state \<Rightarrow> i18n_state" where
  "loadTranslations h pg primary fallback st =
     (let st1 = emit [Fetch (js ''/static/languages/'' @ currentLanguage st @ js ''.json'')] st
      in case primary of
           Rejected \<Rightarrow> loadFallbackTranslations h pg fallback st1
         | Response ok body \<Rightarrow>
             if ok then
               (case body of
                  None \<Rightarrow> loadFallbackTranslations h pg fallback st1
                | Some doc \<Rightarrow> applyTranslations h pg (st1\<lparr>translationTable := doc\<rparr>))
             else loadFallbackTranslations h pg fallback st1)"

text \<open>
  \<open>setLanguage\<close>, run to its end: \<open>primary\<close> and \<open>fallback\<close> are the outcomes of the
  request for the new language's document and of the request for the English one (made
  only when the first fails). An asynchronous operation is modelled as one call that runs
  from its start to the point where its promise settles; other handlers that the event
  loop could run while the call waits for the network are not interleaved with it.
\<close>

definition setLanguage ::
    "host \<Rightarrow> page \<Rightarrow> fetch_result \<Rightarrow> fetch_result \<Rightarrow> jstring \<Rightarrow> i18n_state \<Rightarrow> i18n_state" where
  "setLanguage h pg primary fallback langCode st =
     (if currentLanguage st = langCode then st
      else
        (let st1 = st\<lparr>currentLanguage := langCode\<rparr>;
             st2 = emit [StorageSet (js ''sakha-language'') langCode] st1;
             st3 = loadTranslations h pg primary fallback st2
         in emit [Dispatch (js ''languageChanged'') langCode] st3))"

section \<open>The chat session controller (class SakhaAI)\<close>

subsection \<open>State\<close>

text \<open>
  The fields of the controller and the parts of the page it reads and writes. The
  transcript is the list of message nodes under \<open>#messages\<close>; a node keeps its sender,
  whether it carries the error style, and the value assigned to \<open>textContent\<close> or the
  markup assigned to \<open>innerHTML\<close>. \<open>elements\<close> are the elements of the document that are
  mode buttons or carry a \<open>data-mode\<close> attribute, in document order. \<open>requests\<close> are the
  bodies of the chat requests issued so far. \<open>i18n\<close> is \<open>window.i18n\<close>. The elements
  that \<open>initializeElements\<close> looks up are taken to exist; the deferred scroll of
  \<open>scrollToBottom\<close> and console output are left out.
\<close>

datatype role = User | Assistant

datatype content = TextContent jsval | InnerHTML jstring

record message =
  sender :: role
  is_error :: bool
  rendered :: content

record mode_elem =
  data_mode :: "jstring option"
  mode_btn :: bool
  active :: bool

record request =
  req_message :: jstring
  req_mode :: jstring
  req_language :: jstring

record chat_state =
  isConnected :: bool
  currentMode :: jstring
  inputValue :: jstring
  inputHeight :: jstring
  placeholder_text :: jsval
  sendDisabled :: bool
  welcomeDisplay :: jstring
  chatDisplay :: jstring
  messages :: "message list"
  loadingShown :: bool
  crisisShown :: bool
  statusDisconnected :: bool
  statusText :: jsval
  elements :: "mode_elem list"
  requests :: "request list"
  i18n :: "i18n_state option"

datatype error = TypeError | SyntaxError | NetworkError | HttpError

datatype completion = Returned | Threw error

subsection \<open>Operations\<close>

definition showLoading :: "chat_state \<Rightarrow> chat_state" where
  "showLoading st = st\<lparr>loadingShown := True\<rparr>"

definition hideLoading :: "chat_state \<Rightarrow> chat_state" where
  "hideLoading st = st\<lparr>loadingShown := False\<rparr>"

definition showCrisisModal :: "chat_state \<Rightarrow> chat_state" where
  "showCrisisModal st = st\<lparr>crisisShown := True\<rparr>"

text \<open>
  \<open>formatMessage\<close> called on a value: \<open>content.replace\<close> exists only on a string, on
  anything else the call throws a \<open>TypeError\<close>.
\<close>

definition formatMessage_of :: "jsval \<Rightarrow> error + jstring" where
  "formatMessage_of c = (case c of JStr s \<Rightarrow> Inr (formatMessage s) | _ \<Rightarrow> Inl TypeError)"

text \<open>
  \<open>addMessage\<close> builds the node first and appends it last, so a throw of
  \<open>formatMessage\<close> leaves the transcript as it was.
\<close>

definition addMessage :: "jsval \<Rightarrow> role \<Rightarrow> bool \<Rightarrow> chat_state \<Rightarrow> error + chat_state" where
  "addMessage c who isError st =
     (case who of
        Assistant \<Rightarrow>
          (case formatMessage_of c of
             Inl e \<Rightarrow> Inl e
           | Inr html \<Rightarrow>
               Inr (st\<lparr>messages := messages st
                      @ [\<lparr>sender = who, is_error = isError, rendered = InnerHTML html\<rparr>]\<rparr>))
      | User \<Rightarrow>
          Inr (st\<lparr>messages := messages st
                 @ [\<lparr>sender = who, is_error = isError, rendered = TextContent c\<rparr>]\<rparr>))"

definition updatePlaceholders :: "host \<Rightarrow> chat_state \<Rightarrow> chat_state" where
  "updatePlaceholders h st =
     (case i18n st of
        Some i \<Rightarrow>
          st\<lparr>placeholder_text :=
               t h (translationTable i) (js ''app.placeholders.'' @ currentMode st) []\<rparr>
      | None \<Rightarrow> st)"

text \<open>
  \<open>document.querySelector\<close> is the browser's: given the selector text and the elements,
  it answers the index of the first element that matches, \<open>None\<close> for \<open>null\<close>, or
  throws on a selector it cannot parse. It is a parameter of \<open>setMode\<close>.
\<close>

type_synonym selector_engine = "jstring \<Rightarrow> mode_elem list \<Rightarrow> error + nat option"

definition mode_selector :: "jstring \<Rightarrow> jstring" where
  "mode_selector mode = js ''[data-mode='' @ [0x22] @ mode @ [0x22] @ js '']''"

definition clear_active :: "mode_elem list \<Rightarrow> mode_elem list" where
  "clear_active es = map (\<lambda>e. if mode_btn e then e\<lparr>active := False\<rparr> else e) es"

definition setMode ::
    "selector_engine \<Rightarrow> host \<Rightarrow> jstring \<Rightarrow> chat_state \<Rightarrow> chat_state \<times> completion" where
  "setMode qs h mode st =
     (let st1 = st\<lparr>currentMode := mode\<rparr>;
          st2 = st1\<lparr>elements := clear_active (elements st1)\<rparr>
      in case qs (mode_selector mode) (elements st2) of
           Inl e \<Rightarrow> (st2, Threw e)
         | Inr None \<Rightarrow> (st2, Threw TypeError)
         | Inr (Some i) \<Rightarrow>
             (updatePlaceholders h
                (st2\<lparr>elements := (elements st2)[i := (elements st2 ! i)\<lparr>active := True\<rparr>]\<rparr>),
              Returned))"

text \<open>\<open>String.prototype.trim\<close> removes white space and line terminators at both ends.\<close>

definition trim :: "jstring \<Rightarrow> jstring" where
  "trim s = rev (dropWhile is_space (rev (dropWhile is_space s)))"

definition updateConnectionStatus :: "host \<Rightarrow> bool \<Rightarrow> jsval \<Rightarrow> chat_state \<Rightarrow> chat_state" where
  "updateConnectionStatus h connected aiEnabled st =
     (let ai = (if aiEnabled = JUndefined then JBool False else aiEnabled);
          statusKey = (if truthy ai then js ''app.status.aiReady''
                       else js ''app.status.connectedLimited'');
          shown =
            (if connected then
               (case i18n st of
                  Some i \<Rightarrow> t h (translationTable i) statusKey []
                | None \<Rightarrow>
                    JStr (if truthy ai then js ''AI Ready'' else js ''Connected (Limited AI)''))
             else
               (case i18n st of
                  Some i \<Rightarrow> t h (translationTable i) (js ''app.status.disconnected'') []
                | None \<Rightarrow> JStr (js ''Disconnected'')))
      in st\<lparr>isConnected := connected,
            statusDisconnected := (if connected then False else True),
            statusText := shown,
            sendDisabled := (if connected then trim (inputValue st) = [] else True)\<rparr>)"

text \<open>
  \<open>checkHealth\<close>: \<open>reply\<close> is the outcome of the request to \<open>/api/health\<close>. Every
  throw inside the \<open>try\<close> (a rejected fetch, a body that does not parse, a body that is
  \<open>null\<close>) ends in the \<open>catch\<close>.
\<close>

definition checkHealth :: "host \<Rightarrow> fetch_result \<Rightarrow> chat_state \<Rightarrow> chat_state" where
  "checkHealth h reply st =
     (case reply of
        Rejected \<Rightarrow> updateConnectionStatus h False JUndefined st
      | Response ok body \<Rightarrow>
          (case body of
             None \<Rightarrow> updateConnectionStatus h False JUndefined st
           | Some d \<Rightarrow>
               if d = JNull \<or> d = JUndefined then updateConnectionStatus h False JUndefined st
               else if js_get h d (js ''status'') = JStr (js ''healthy'')
               then updateConnectionStatus h True (js_get h d (js ''ai_enabled'')) st
               else updateConnectionStatus h False JUndefined st))"

definition default_error :: jstring where
  "default_error =
     js (''I apologize, but I'' @ [CHR 0x27] @ ''m having trouble connecting right now. ''
         @ ''Please try again in a moment. If the problem persists, please refresh the page.'')"

text \<open>
  The \<open>try\<close> block of \<open>sendMessage\<close> from the point where the fetch settles: the state
  it leaves and whether it completed or threw.
\<close>

definition on_reply :: "host \<Rightarrow> fetch_result \<Rightarrow> chat_state \<Rightarrow> chat_state \<times> completion" where
  "on_reply h reply st =
     (case reply of
        Rejected \<Rightarrow> (st, Threw NetworkError)
      | Response ok body \<Rightarrow>
          if ok then
            (case body of
               None \<Rightarrow> (st, Threw SyntaxError)
             | Some d \<Rightarrow>
                 (let st1 = hideLoading st
                  in if d = JNull \<or> d = JUndefined then (st1, Threw TypeError)
                     else
                       (case addMessage (js_get h d (js ''response'')) Assistant False st1 of
                          Inl e \<Rightarrow> (st1, Threw e)
                        | Inr st2 \<Rightarrow>
                            if truthy (js_get h d (js ''crisis_detected''))
                            then (showCrisisModal st2, Returned)
                            else (st2, Returned))))
          else (st, Threw HttpError))"

definition error_text :: "host \<Rightarrow> chat_state \<Rightarrow> jsval" where
  "error_text h st =
     (case i18n st of
        Some i \<Rightarrow> t h (translationTable i) (js ''app.error'') []
      | None \<Rightarrow> JStr default_error)"

text \<open>
  \<open>sendMessage\<close>, run to its end: \<open>reply\<close> is the outcome of the request to
  \<open>/api/chat\<close>. The second component tells whether the call completed or an exception
  left it (the promise rejects); the state is the one reached at that point.
\<close>

definition sendMessage :: "host \<Rightarrow> fetch_result \<Rightarrow> chat_state \<Rightarrow> chat_state \<times> completion" where
  "sendMessage h reply st =
     (let message = trim (inputValue st)
      in if message = [] \<or> \<not> isConnected st then (st, Returned)
         else
           (let st1 = (if welcomeDisplay st \<noteq> js ''none''
                       then st\<lparr>welcomeDisplay := js ''none'', chatDisplay := js ''flex''\<rparr>
                       else st)
            in case addMessage (JStr message) User False st1 of
                 Inl e \<Rightarrow> (st1, Threw e)
               | Inr st2 \<Rightarrow>
                   (let st3 = st2\<lparr>inputValue := [], inputHeight := js ''auto'',
                                   sendDisabled := True\<rparr>;
                        st4 = showLoading st3;
                        st5 = st4\<lparr>requests := requests st4
                                @ [\<lparr>req_message = message,
                                    req_mode = currentMode st4,
                                    req_language =
                                      (case i18n st4 of
                                         Some i \<Rightarrow> currentLanguage i
                                       | None \<Rightarrow> js ''en'')\<rparr>]\<rparr>
                    in case on_reply h reply st5 of
                         (st6, Returned) \<Rightarrow> (st6, Returned)
                       | (st6, Threw e) \<Rightarrow>
                           (let st7 = hideLoading st6
                            in case addMessage (error_text h st7) Assistant True st7 of
                                 Inl e' \<Rightarrow> (st7, Threw e')
                               | Inr st8 \<Rightarrow> (st8, Returned)))))"

subsection \<open>A selector engine for the examples\<close>

text \<open>
  For a mode without quotation mark, backslash or line break the selector
  \<open>[data-mode="mode"]\<close> selects the first element whose \<open>data-mode\<close> attribute is the
  mode.
\<close>

definition css_plain :: "jstring \<Rightarrow> bool" where
  "css_plain s = list_all (\<lambda>c. c \<noteq> 0x22 \<and> c \<noteq> 0x5C \<and> c \<noteq> 0x0A \<and> c \<noteq> 0x0C \<and> c \<noteq> 0x0D) s"

fun find_index :: "('a \<Rightarrow> bool) \<Rightarrow> 'a list \<Rightarrow> nat option" where
  "find_index P [] = None"
| "find_index P (x # xs) = (if P x then Some 0 else map_option Suc (find_index P xs))"

definition attr_query :: selector_engine where
  "attr_query sel es =
     (let mode = take (length sel - 14) (drop 12 sel)
      in if sel = mode_selector mode \<and> css_plain mode
         then Inr (find_index (\<lambda>e. data_mode e = Some mode) es)
         else Inl SyntaxError)"

section \<open>Observations and example states\<close>

text \<open>
  The effects a reload of the translations consists of (requests and writes to the page),
  as opposed to a write to persisted storage and a broadcast.
\<close>

fun is_reload_effect :: "effect \<Rightarrow> bool" where
  "is_reload_effect (Fetch u) = True"
| "is_reload_effect (Dom w) = True"
| "is_reload_effect (StorageSet k v) = False"
| "is_reload_effect (Dispatch n d) = False"

text \<open>
  The replacement function as claim C2 words it, to compare with \<open>substitute\<close>: the
  placeholder is replaced by \<open>params[name]\<close> whenever \<open>params\<close> has an entry of that
  name, and is kept otherwise.
\<close>

definition substitute_claimed ::
    "host \<Rightarrow> (jstring \<times> jsval) list \<Rightarrow> jstring \<Rightarrow> jstring \<Rightarrow> jstring" where
  "substitute_claimed h params matched param =
     (case map_of params param of
        Some v \<Rightarrow> js_to_string h v
      | None \<Rightarrow> matched)"

text \<open>
  The connectivity state of the controller: the \<open>isConnected\<close> field and the status
  indicator. Whether the service reports AI enabled is kept nowhere but in the text of the
  indicator.
\<close>

definition connectivity :: "chat_state \<Rightarrow> bool \<times> bool \<times> jsval" where
  "connectivity st = (isConnected st, statusDisconnected st, statusText st)"

definition sample_i18n :: i18n_state where
  "sample_i18n =
     \<lparr>currentLanguage = js ''en'',
      translationTable =
        JObj [(js ''app'',
               JObj [(js ''title'', JStr (js ''Sakha'')),
                     (js ''error'', JStr (js ''Something went **wrong**'')),
                     (js ''placeholders'', JObj [(js ''normal'', JStr (js ''Type here''))])])],
      trace = []\<rparr>"

definition sample_page :: page where
  "sample_page =
     \<lparr>data_i18n = [(js ''H1'', js ''app.title''),
                  (js ''TEXTAREA'', js ''app.placeholders.normal'')],
      data_i18n_html = [],
      data_i18n_placeholder = [],
      language_selector = True\<rparr>"

definition sample_chat :: chat_state where
  "sample_chat =
     \<lparr>isConnected = True, currentMode = js ''normal'', inputValue = js '' hello '',
      inputHeight = js ''auto'', placeholder_text = JStr (js ''Type here''),
      sendDisabled = False, welcomeDisplay = [], chatDisplay = js ''none'', messages = [],
      loadingShown = False, crisisShown = False, statusDisconnected = False,
      statusText = JStr (js ''AI Ready''),
      elements =
        [\<lparr>data_mode = Some (js ''normal''), mode_btn = True, active = True\<rparr>,
         \<lparr>data_mode = Some (js ''gita''), mode_btn = True, active = False\<rparr>],
      requests = [], i18n = Some sample_i18n\<rparr>"

text \<open>
  A state in which the crisis dialog is still open from an earlier reply and the loaded
  table maps \<open>app.error\<close> to a nested mapping instead of a string.
\<close>

definition broken_error_chat :: chat_state where
  "broken_error_chat =
     sample_chat
       \<lparr>crisisShown := True,
        i18n := Some (sample_i18n
                 \<lparr>translationTable :=
                    JObj [(js ''app'',
                           JObj [(js ''error'',
                                  JObj [(js ''title'', JStr (js ''Error''))])])]\<rparr>)\<rparr>"

section \<open>Properties\<close>

subsection \<open>Evaluation on closed inputs\<close>

lemma replace_all_skip:
  "0 < n \<Longrightarrow> replace_all m n bol (c # cs) = replace_all m (n - 1) (is_line_terminator c) cs"
  by (cases n) simp_all

lemmas format_eval =
  formatMessage_def replace_global_def replace_all_skip delimited_def literal_def url_def
  url_scheme_def line_rule_def wrap_list_def li_item_def li_run.simps js_def
  is_line_terminator_def is_space_def url_char_def anchor_def

lemmas t_eval =
  t_def js_def placeholders_def placeholder_name_def substitute_def replace_global_def
  replace_all_skip is_line_terminator_def is_word_char_def js_to_string_def inherited_def
  std_host_def std_property_def object_prototype_members_def

subsection \<open>I18n.t\<close>

lemma walk_append:
  "walk h v (ks @ ks') = (case walk h v ks of None \<Rightarrow> None | Some v' \<Rightarrow> walk h v' ks')"
  by (induction ks arbitrary: v) auto

text \<open>
  C1 (as amended). Let the key split into segments at the dots. If the walk reaches, at
  some segment \<open>k\<close>, a value \<open>v\<close> that is not an object or has no property \<open>k\<close>, then
  \<open>t(key)\<close> returns the key unchanged. If the walk passes every segment and ends at a
  value that is not a string, \<open>t(key)\<close> returns that value itself, not the key. \<open>t\<close>
  has no failing branch: it returns in every case.
\<close>

theorem t_unresolved_key:
  "(split_on 0x2E key = ks @ k # rest \<and> walk h table ks = Some v
      \<and> \<not> (truthy v \<and> typeof v = js ''object'' \<and> js_in h v k)
    \<longrightarrow> t h table key params = JStr key)
   \<and> (walk h table (split_on 0x2E key) = Some w \<and> typeof w \<noteq> js ''string''
    \<longrightarrow> t h table key params = w)"
proof (intro conjI impI)
  assume a: "split_on 0x2E key = ks @ k # rest \<and> walk h table ks = Some v
      \<and> \<not> (truthy v \<and> typeof v = js ''object'' \<and> js_in h v k)"
  then have "walk h v (k # rest) = None"
    by auto
  with a have "walk h table (split_on 0x2E key) = None"
    by (simp add: walk_append del: walk.simps)
  then show "t h table key params = JStr key"
    by (simp add: t_def)
next
  assume b: "walk h table (split_on 0x2E key) = Some w \<and> typeof w \<noteq> js ''string''"
  then show "t h table key params = w"
    by (cases w) (simp_all add: t_def)
qed

text \<open>
  The theorem at three inputs: a segment the table lacks, a segment below a string leaf,
  and a path that ends at a number.
\<close>

theorem t_unresolved_key_witness:
  "t std_host (JObj [(js ''app'', JObj [(js ''title'', JStr (js ''Sakha''))])])
     (js ''app.nope'') [] = JStr (js ''app.nope'')
   \<and> t std_host (JObj [(js ''app'', JStr (js ''Sakha''))]) (js ''app.title'') []
       = JStr (js ''app.title'')
   \<and> t std_host (JObj [(js ''count'', JNum 3)]) (js ''count'') [] = JNum 3"
proof -
  have "t std_host (JObj [(js ''app'', JObj [(js ''title'', JStr (js ''Sakha''))])])
     (js ''app.nope'') [] = JStr (js ''app.nope'')"
    using t_unresolved_key [of "js ''app.nope''" "[js ''app'']" "js ''nope''" "[]" std_host
        "JObj [(js ''app'', JObj [(js ''title'', JStr (js ''Sakha''))])]"
        "JObj [(js ''title'', JStr (js ''Sakha''))]" "[]" "JNull"]
    by (simp add: t_eval)
  moreover have "t std_host (JObj [(js ''app'', JStr (js ''Sakha''))]) (js ''app.title'') []
       = JStr (js ''app.title'')"
    using t_unresolved_key [of "js ''app.title''" "[js ''app'']" "js ''title''" "[]" std_host
        "JObj [(js ''app'', JStr (js ''Sakha''))]" "JStr (js ''Sakha'')" "[]" "JNull"]
    by (simp add: t_eval)
  moreover have "t std_host (JObj [(js ''count'', JNum 3)]) (js ''count'') [] = JNum 3"
    using t_unresolved_key [of "js ''count''" "[]" "[]" "[]" std_host
        "JObj [(js ''count'', JNum 3)]" "JNull" "[]" "JNum 3"]
    by (simp add: t_eval)
  ultimately show ?thesis by blast
qed

text \<open>
  C1 as stated fails where the path resolves to a nested mapping: with the table
  \<open>{app: {title: "Sakha"}}\<close>, \<open>t("app")\<close> returns the mapping \<open>{title: "Sakha"}\<close>, not
  the string \<open>"app"\<close>.
\<close>

theorem t_nested_mapping_counterexample:
  "t std_host (JObj [(js ''app'', JObj [(js ''title'', JStr (js ''Sakha''))])]) (js ''app'') []
     = JObj [(js ''title'', JStr (js ''Sakha''))]
   \<and> t std_host (JObj [(js ''app'', JObj [(js ''title'', JStr (js ''Sakha''))])]) (js ''app'') []
     \<noteq> JStr (js ''app'')"
  by (simp add: t_eval)

text \<open>
  C2 fails on the code: a parameter that is present but falsy is treated as absent. With
  the table \<open>{greeting: "Hello {{name}}!"}\<close> and \<open>params = {name: ""}\<close>,
  \<open>params[param] || match\<close> keeps the placeholder, where the claim's replacement gives
  \<open>"Hello !"\<close>.
\<close>

theorem t_falsy_parameter_kept_verbatim:
  "t std_host (JObj [(js ''greeting'', JStr (js ''Hello {{name}}!''))]) (js ''greeting'')
     [(js ''name'', JStr [])] = JStr (js ''Hello {{name}}!'')
   \<and> replace_global (placeholders (substitute_claimed std_host [(js ''name'', JStr [])]))
       (js ''Hello {{name}}!'') = js ''Hello !''"
  by (simp add: t_eval substitute_claimed_def)

subsection \<open>SakhaAI.formatMessage\<close>

text \<open>
  C3 fails on the code: \<open>formatMessage("- a\n- b")\<close> is one list with one item that holds
  both lines. The line break has become \<open><br>\<close> before the list-item rule runs, so the
  subject is a single line and \<open>^- (.*$)\<close> matches once, from the start to the end.
\<close>

theorem formatMessage_two_bullets:
  "formatMessage (js ''- a\<newline>- b'') = js ''<ul><li>a<br>- b</li></ul>''"
  by (simp add: format_eval)

text \<open>
  With a carriage return between the two lines, which the line-break rule leaves in place,
  the same rules give what the wrapping step is written for: one list of two items.
\<close>

lemma formatMessage_two_bullets_carriage_return:
  "formatMessage (js ''- a'' @ [0x0D] @ js ''- b'')
     = js ''<ul><li>a</li>'' @ [0x0D] @ js ''<li>b</li></ul>''"
  by (simp add: format_eval)

text \<open>
  C4. \<open>formatMessage("**bold** and *italic*")\<close> is
  \<open><strong>bold</strong> and <em>italic</em>\<close>: the bold rule has consumed both pairs
  of asterisks before the italic rule runs, and neither element holds markup of the other.
\<close>

theorem formatMessage_bold_then_italic:
  "formatMessage (js ''**bold** and *italic*'')
     = js ''<strong>bold</strong> and <em>italic</em>''"
  by (simp add: format_eval)

lemmas chat_eval =
  sendMessage_def on_reply_def addMessage_def formatMessage_of_def hideLoading_def
  showLoading_def showCrisisModal_def error_text_def trim_def Let_def
  setMode_def clear_active_def updatePlaceholders_def attr_query_def mode_selector_def
  css_plain_def sample_chat_def sample_i18n_def

subsection \<open>I18n.setLanguage\<close>

text \<open>
  C6. For every language code equal to the current language, \<open>setLanguage(code)\<close>
  leaves the manager as it is: the trace gains no request (no reload), no storage write
  and no broadcast, and the language and the table are unchanged.
\<close>

theorem setLanguage_same_code:
  "currentLanguage st = code \<Longrightarrow> setLanguage h pg primary fallback code st = st"
  by (simp add: setLanguage_def)

theorem setLanguage_same_code_witness:
  "currentLanguage sample_i18n = js ''en''
   \<and> setLanguage std_host sample_page Rejected Rejected (js ''en'') sample_i18n = sample_i18n"
proof -
  have a: "currentLanguage sample_i18n = js ''en''"
    by (simp add: sample_i18n_def)
  show ?thesis
    using a setLanguage_same_code [OF a, of std_host sample_page Rejected Rejected]
    by simp
qed

text \<open>What a reload adds to the trace: requests and writes to the page, nothing else.\<close>

lemma trace_emit [simp]: "trace (emit es st) = trace st @ es"
  by (simp add: emit_def)

lemma currentLanguage_emit [simp]: "currentLanguage (emit es st) = currentLanguage st"
  by (simp add: emit_def)

lemma applyTranslations_trace:
  "\<exists>es. trace (applyTranslations h pg st) = trace st @ es \<and> list_all is_reload_effect es"
  by (auto simp: applyTranslations_def updateLanguageSelector_def Let_def list_all_iff
      split: prod.splits)

lemma applyTranslations_language [simp]:
  "currentLanguage (applyTranslations h pg st) = currentLanguage st"
  by (simp add: applyTranslations_def updateLanguageSelector_def Let_def)

lemma loadFallbackTranslations_trace:
  "\<exists>es. trace (loadFallbackTranslations h pg fallback st) = trace st @ es
        \<and> list_all is_reload_effect es"
proof (cases fallback)
  case Rejected
  then show ?thesis by (simp add: loadFallbackTranslations_def)
next
  case (Response ok parsed)
  show ?thesis
  proof (cases parsed)
    case None
    with Response show ?thesis by (simp add: loadFallbackTranslations_def)
  next
    case (Some doc)
    obtain es where
      "trace (applyTranslations h pg
                (emit [Fetch (js ''/static/languages/en.json'')] st\<lparr>translationTable := doc\<rparr>))
         = trace (emit [Fetch (js ''/static/languages/en.json'')] st\<lparr>translationTable := doc\<rparr>) @ es"
      and "list_all is_reload_effect es"
      using applyTranslations_trace by blast
    with Response Some show ?thesis
      by (simp add: loadFallbackTranslations_def emit_def)
  qed
qed

lemma loadFallbackTranslations_language [simp]:
  "currentLanguage (loadFallbackTranslations h pg fallback st) = currentLanguage st"
  by (simp add: loadFallbackTranslations_def Let_def split: fetch_result.splits option.splits)

lemma loadTranslations_language [simp]:
  "currentLanguage (loadTranslations h pg primary fallback st) = currentLanguage st"
  by (simp add: loadTranslations_def Let_def split: fetch_result.splits option.splits)

lemma loadTranslations_trace:
  "\<exists>es. trace (loadTranslations h pg primary fallback st)
          = trace st @ Fetch (js ''/static/languages/'' @ currentLanguage st @ js ''.json'') # es
        \<and> list_all is_reload_effect es"
proof -
  let ?f = "Fetch (js ''/static/languages/'' @ currentLanguage st @ js ''.json'')"
  let ?st1 = "emit [?f] st"
  have fb: "\<exists>es. trace (loadFallbackTranslations h pg fallback ?st1) = trace st @ ?f # es
        \<and> list_all is_reload_effect es"
    using loadFallbackTranslations_trace [of h pg fallback ?st1] by auto
  have ap: "\<exists>es. trace (applyTranslations h pg (?st1\<lparr>translationTable := doc\<rparr>))
        = trace st @ ?f # es \<and> list_all is_reload_effect es" for doc
  proof -
    obtain es where
      "trace (applyTranslations h pg (?st1\<lparr>translationTable := doc\<rparr>))
         = trace (?st1\<lparr>translationTable := doc\<rparr>) @ es"
      and "list_all is_reload_effect es"
      using applyTranslations_trace by blast
    then show ?thesis
      by (intro exI [of _ es]) (simp add: emit_def)
  qed
  have "loadTranslations h pg primary fallback st = loadFallbackTranslations h pg fallback ?st1
      \<or> (\<exists>doc. loadTranslations h pg primary fallback st
                 = applyTranslations h pg (?st1\<lparr>translationTable := doc\<rparr>))"
    by (auto simp: loadTranslations_def Let_def split: fetch_result.splits option.splits)
  then show ?thesis
  proof
    assume "loadTranslations h pg primary fallback st
              = loadFallbackTranslations h pg fallback ?st1"
    with fb show ?thesis by simp
  next
    assume "\<exists>doc. loadTranslations h pg primary fallback st
                 = applyTranslations h pg (?st1\<lparr>translationTable := doc\<rparr>)"
    then obtain doc where
      "loadTranslations h pg primary fallback st
         = applyTranslations h pg (?st1\<lparr>translationTable := doc\<rparr>)" ..
    with ap [of doc] show ?thesis by simp
  qed
qed

text \<open>
  C7. For every language code different from the current language, \<open>setLanguage(code)\<close>
  adds to the trace, in this order: one storage write of the new code under
  \<open>sakha-language\<close>; the effects of the reload, which are requests and writes to the
  page only and start with the request for the new language's document; and, last, one
  \<open>languageChanged\<close> broadcast that carries the new code. The current language is the new
  code afterwards. This holds whatever the outcomes of the two requests are.
\<close>

theorem setLanguage_new_code:
  assumes "currentLanguage st \<noteq> code"
  shows "\<exists>reload.
           trace (setLanguage h pg primary fallback code st)
             = trace st @ [StorageSet (js ''sakha-language'') code]
                 @ reload @ [Dispatch (js ''languageChanged'') code]
           \<and> list_all is_reload_effect reload
           \<and> hd reload = Fetch (js ''/static/languages/'' @ code @ js ''.json'')
           \<and> currentLanguage (setLanguage h pg primary fallback code st) = code"
proof -
  let ?st2 = "emit [StorageSet (js ''sakha-language'') code] (st\<lparr>currentLanguage := code\<rparr>)"
  obtain es where es:
    "trace (loadTranslations h pg primary fallback ?st2)
       = trace ?st2 @ Fetch (js ''/static/languages/'' @ currentLanguage ?st2 @ js ''.json'') # es"
    "list_all is_reload_effect es"
    using loadTranslations_trace by blast
  let ?reload = "Fetch (js ''/static/languages/'' @ code @ js ''.json'') # es"
  have "trace (setLanguage h pg primary fallback code st)
          = trace st @ [StorageSet (js ''sakha-language'') code]
              @ ?reload @ [Dispatch (js ''languageChanged'') code]"
    using assms es(1) by (simp add: setLanguage_def Let_def)
  moreover have "list_all is_reload_effect ?reload"
    using es(2) by simp
  moreover have "currentLanguage (setLanguage h pg primary fallback code st) = code"
    using assms by (simp add: setLanguage_def Let_def)
  ultimately show ?thesis
    by (intro exI [of _ ?reload]) simp
qed

theorem setLanguage_new_code_witness:
  "currentLanguage sample_i18n \<noteq> js ''hi''
   \<and> (\<exists>reload.
           trace (setLanguage std_host sample_page (Response False None) Rejected (js ''hi'') sample_i18n)
             = trace sample_i18n @ [StorageSet (js ''sakha-language'') (js ''hi'')]
                 @ reload @ [Dispatch (js ''languageChanged'') (js ''hi'')]
           \<and> list_all is_reload_effect reload
           \<and> hd reload = Fetch (js ''/static/languages/'' @ js ''hi'' @ js ''.json'')
           \<and> currentLanguage (setLanguage std_host sample_page (Response False None) Rejected (js ''hi'') sample_i18n) = js ''hi'')"
proof -
  have a: "currentLanguage sample_i18n \<noteq> js ''hi''"
    by (simp add: sample_i18n_def js_def)
  show ?thesis
    using a setLanguage_new_code [OF a, of std_host sample_page "Response False None" Rejected]
    by blast
qed

subsection \<open>SakhaAI.sendMessage\<close>

text \<open>
  C5. When the trimmed input is empty, or the controller is not connected,
  \<open>sendMessage\<close> returns with the state unchanged: nothing is appended to the transcript
  and no request is issued.
\<close>

theorem sendMessage_guard:
  "trim (inputValue st) = [] \<or> \<not> isConnected st \<Longrightarrow>
     sendMessage h reply st = (st, Returned)
     \<and> messages (fst (sendMessage h reply st)) = messages st
     \<and> requests (fst (sendMessage h reply st)) = requests st"
  by (auto simp: sendMessage_def Let_def)

theorem sendMessage_guard_witness:
  "sendMessage std_host (Response True None) (sample_chat\<lparr>inputValue := [0x20, 0x0A, 0x09]\<rparr>)
     = (sample_chat\<lparr>inputValue := [0x20, 0x0A, 0x09]\<rparr>, Returned)
   \<and> sendMessage std_host Rejected (sample_chat\<lparr>isConnected := False\<rparr>)
     = (sample_chat\<lparr>isConnected := False\<rparr>, Returned)"
proof -
  have a: "trim (inputValue (sample_chat\<lparr>inputValue := [0x20, 0x0A, 0x09]\<rparr>)) = []"
    by (simp add: trim_def is_space_def)
  have b: "\<not> isConnected (sample_chat\<lparr>isConnected := False\<rparr>)"
    by simp
  show ?thesis
    using sendMessage_guard [OF disjI1, OF a, of std_host "Response True None"]
      sendMessage_guard [OF disjI2, OF b, of std_host Rejected]
    by simp
qed

text \<open>
  C8 (as amended). Let the guard of \<open>sendMessage\<close> pass, let the chat request fail (the
  fetch rejects, or the response has a non-success status), and let the error text (the
  value of \<open>t('app.error')\<close> when the localization manager exists, the built-in English
  sentence otherwise) be a string. Then the call completes, the transcript gains exactly
  the user's entry followed by one error-flagged assistant entry whose markup is
  \<open>formatMessage\<close> of the error text, the loading indicator is hidden, and the crisis
  dialog is as it was before the call.
\<close>

theorem sendMessage_failed_request:
  assumes "trim (inputValue st) \<noteq> []" and "isConnected st"
      and "reply = Rejected \<or> reply = Response False parsed"
      and "error_text h st = JStr e"
  shows "snd (sendMessage h reply st) = Returned
         \<and> messages (fst (sendMessage h reply st))
             = messages st
                 @ [\<lparr>sender = User, is_error = False,
                     rendered = TextContent (JStr (trim (inputValue st)))\<rparr>,
                    \<lparr>sender = Assistant, is_error = True,
                     rendered = InnerHTML (formatMessage e)\<rparr>]
         \<and> \<not> loadingShown (fst (sendMessage h reply st))
         \<and> crisisShown (fst (sendMessage h reply st)) = crisisShown st"
  using assms
  by (auto simp: sendMessage_def Let_def on_reply_def addMessage_def formatMessage_of_def
      hideLoading_def showLoading_def error_text_def)

theorem sendMessage_failed_request_witness:
  "snd (sendMessage std_host Rejected sample_chat) = Returned
   \<and> messages (fst (sendMessage std_host Rejected sample_chat))
       = [\<lparr>sender = User, is_error = False, rendered = TextContent (JStr (js ''hello''))\<rparr>,
          \<lparr>sender = Assistant, is_error = True,
           rendered = InnerHTML (js ''Something went <strong>wrong</strong>'')\<rparr>]
   \<and> \<not> loadingShown (fst (sendMessage std_host Rejected sample_chat))
   \<and> crisisShown (fst (sendMessage std_host Rejected sample_chat)) = False"
proof -
  have a: "trim (inputValue sample_chat) \<noteq> []"
    by (simp add: sample_chat_def trim_def is_space_def js_def)
  have b: "isConnected sample_chat"
    by (simp add: sample_chat_def)
  have c: "Rejected = Rejected \<or> Rejected = Response False None"
    by simp
  have d: "error_text std_host sample_chat = JStr (js ''Something went **wrong**'')"
    by (simp add: error_text_def sample_chat_def sample_i18n_def t_eval)
  have e: "formatMessage (js ''Something went **wrong**'')
             = js ''Something went <strong>wrong</strong>''"
    by (simp add: format_eval)
  have f: "trim (inputValue sample_chat) = js ''hello''"
    by (simp add: sample_chat_def trim_def is_space_def js_def)
  have g: "messages sample_chat = []" "crisisShown sample_chat = False"
    by (simp_all add: sample_chat_def)
  show ?thesis
    using sendMessage_failed_request [OF a b c d] by (simp add: e f g)
qed

text \<open>
  C8 as stated fails in \<open>broken_error_chat\<close>: the request fails, \<open>t('app.error')\<close>
  returns the nested mapping, \<open>formatMessage\<close> throws on it inside the \<open>catch\<close> block,
  so the call ends with a \<open>TypeError\<close> and the transcript holds the user's entry only;
  and the crisis dialog, open before the call, is still shown.
\<close>

theorem sendMessage_failed_request_counterexample:
  "snd (sendMessage std_host Rejected broken_error_chat) = Threw TypeError
   \<and> messages (fst (sendMessage std_host Rejected broken_error_chat))
       = [\<lparr>sender = User, is_error = False, rendered = TextContent (JStr (js ''hello''))\<rparr>]
   \<and> crisisShown (fst (sendMessage std_host Rejected broken_error_chat))"
  by (simp add: broken_error_chat_def chat_eval t_eval is_space_def)

text \<open>Connectivity is outside the frame of every step of \<open>sendMessage\<close>.\<close>

lemma addMessage_connectivity:
  "addMessage c who e st = Inr st' \<Longrightarrow> connectivity st' = connectivity st"
  by (auto simp: addMessage_def connectivity_def split: role.splits sum.splits)

lemma on_reply_connectivity:
  "connectivity (fst (on_reply h reply st)) = connectivity st"
proof -
  have hl: "connectivity (hideLoading st) = connectivity st"
    by (simp add: connectivity_def hideLoading_def)
  have sc: "connectivity (showCrisisModal s) = connectivity s" for s
    by (simp add: connectivity_def showCrisisModal_def)
  show ?thesis
    using hl sc addMessage_connectivity
    by (auto simp: on_reply_def Let_def
        split: fetch_result.splits option.splits sum.splits)
qed

lemma sendMessage_connectivity:
  "connectivity (fst (sendMessage h reply st)) = connectivity st"
proof (cases "trim (inputValue st) = [] \<or> \<not> isConnected st")
  case True
  then show ?thesis by (auto simp: sendMessage_def Let_def)
next
  case False
  define st1 where "st1 = (if welcomeDisplay st \<noteq> js ''none''
                       then st\<lparr>welcomeDisplay := js ''none'', chatDisplay := js ''flex''\<rparr>
                       else st)"
  have c1: "connectivity st1 = connectivity st"
    by (simp add: st1_def connectivity_def)
  obtain st2 where a2: "addMessage (JStr (trim (inputValue st))) User False st1 = Inr st2"
    by (simp add: addMessage_def)
  have c2: "connectivity st2 = connectivity st"
    using addMessage_connectivity [OF a2] c1 by simp
  let ?st4 = "showLoading (st2\<lparr>inputValue := [], inputHeight := js ''auto'',
                              sendDisabled := True\<rparr>)"
  define st5 where
    "st5 = ?st4\<lparr>requests := requests ?st4
              @ [\<lparr>req_message = trim (inputValue st),
                  req_mode = currentMode ?st4,
                  req_language =
                    (case i18n ?st4 of Some i \<Rightarrow> currentLanguage i | None \<Rightarrow> js ''en'')\<rparr>]\<rparr>"
  have c5: "connectivity st5 = connectivity st"
    using c2 by (simp add: st5_def connectivity_def showLoading_def)
  obtain st6 r where o: "on_reply h reply st5 = (st6, r)"
    by (cases "on_reply h reply st5")
  have c6: "connectivity st6 = connectivity st"
    using on_reply_connectivity [of h reply st5] o c5 by simp
  have c7: "connectivity (hideLoading st6) = connectivity st"
    using c6 by (simp add: connectivity_def hideLoading_def)
  have unfold: "sendMessage h reply st =
     (case r of
        Returned \<Rightarrow> (st6, Returned)
      | Threw e \<Rightarrow>
          (case addMessage (error_text h (hideLoading st6)) Assistant True (hideLoading st6) of
             Inl e' \<Rightarrow> (hideLoading st6, Threw e')
           | Inr st8 \<Rightarrow> (st8, Returned)))"
    using False a2 o
    by (simp add: sendMessage_def Let_def st1_def [symmetric] st5_def [symmetric])
  show ?thesis
  proof (cases r)
    case Returned
    with unfold c6 show ?thesis by simp
  next
    case (Threw e)
    show ?thesis
    proof (cases "addMessage (error_text h (hideLoading st6)) Assistant True (hideLoading st6)")
      case (Inl e')
      with unfold Threw c7 show ?thesis by simp
    next
      case (Inr st8)
      with unfold Threw c7 addMessage_connectivity [OF Inr] show ?thesis by simp
    qed
  qed
qed

lemma updatePlaceholders_connectivity:
  "connectivity (updatePlaceholders h st) = connectivity st"
  by (simp add: updatePlaceholders_def connectivity_def split: option.splits)

lemma setMode_connectivity:
  "connectivity (fst (setMode qs h mode st)) = connectivity st"
  by (simp add: setMode_def Let_def updatePlaceholders_connectivity
      split: sum.splits option.splits)
     (simp add: connectivity_def)

text \<open>\<open>checkHealth\<close> is the operation that sets the connected flag.\<close>

lemma checkHealth_isConnected:
  "isConnected (checkHealth h reply st)
     = (case reply of
          Rejected \<Rightarrow> False
        | Response ok parsed \<Rightarrow>
            (case parsed of
               None \<Rightarrow> False
             | Some d \<Rightarrow>
                 d \<noteq> JNull \<and> d \<noteq> JUndefined
                 \<and> js_get h d (js ''status'') = JStr (js ''healthy'')))"
  by (simp add: checkHealth_def updateConnectionStatus_def Let_def
      split: fetch_result.splits option.splits)

text \<open>
  C9. Every execution of \<open>sendMessage\<close>, whatever the outcome of the chat request, leaves
  the connectivity state (the connected flag and the status indicator, which alone
  reflects whether AI is enabled) unchanged; so do \<open>setMode\<close> and
  \<open>updatePlaceholders\<close>. Of the operations of the controller only \<open>checkHealth\<close>,
  through \<open>updateConnectionStatus\<close>, writes it.
\<close>

theorem connectivity_unchanged:
  "connectivity (fst (sendMessage h reply st)) = connectivity st
   \<and> connectivity (fst (setMode qs h mode st)) = connectivity st
   \<and> connectivity (updatePlaceholders h st) = connectivity st"
  by (simp add: sendMessage_connectivity setMode_connectivity updatePlaceholders_connectivity)

subsection \<open>SakhaAI.setMode\<close>

lemma find_index_None: "list_all (\<lambda>x. \<not> P x) xs \<Longrightarrow> find_index P xs = None"
  by (induction xs) auto

lemma mode_selector_inverse:
  "take (length (mode_selector mode) - 14) (drop 12 (mode_selector mode)) = mode"
  by (simp add: mode_selector_def js_def)

lemma attr_query_no_match:
  assumes "css_plain mode" and "list_all (\<lambda>e. data_mode e \<noteq> Some mode) es"
  shows "attr_query (mode_selector mode) (clear_active es) = Inr None"
proof -
  have "list_all (\<lambda>e. data_mode e \<noteq> Some mode) (clear_active es)"
    using assms(2) by (induction es) (auto simp: clear_active_def)
  then have "find_index (\<lambda>e. data_mode e = Some mode) (clear_active es) = None"
    by (rule find_index_None)
  with assms(1) show ?thesis
    by (simp add: attr_query_def Let_def mode_selector_inverse)
qed

text \<open>
  C10 (as amended). When \<open>querySelector\<close> finds no element for the mode (for the
  attribute test: the mode holds no quotation mark, backslash or line break, and no
  element's \<open>data-mode\<close> equals it), \<open>setMode(mode)\<close> sets the current mode to the new
  value, removes the active indicator from every mode button, and then throws a
  \<open>TypeError\<close>, before any element is marked active and before the placeholder is
  refreshed. When \<open>querySelector\<close> finds an element, \<open>setMode\<close> completes.
\<close>

theorem setMode_unmatched:
  "(qs (mode_selector mode) (clear_active (elements st)) = Inr None
      \<longrightarrow> setMode qs h mode st
            = (st\<lparr>currentMode := mode, elements := clear_active (elements st)\<rparr>,
               Threw TypeError))
   \<and> (css_plain mode \<and> list_all (\<lambda>e. data_mode e \<noteq> Some mode) (elements st)
      \<longrightarrow> setMode attr_query h mode st
            = (st\<lparr>currentMode := mode, elements := clear_active (elements st)\<rparr>,
               Threw TypeError))
   \<and> (qs (mode_selector mode) (clear_active (elements st)) = Inr (Some i)
      \<longrightarrow> snd (setMode qs h mode st) = Returned)"
proof (intro conjI impI)
  assume "qs (mode_selector mode) (clear_active (elements st)) = Inr None"
  then show "setMode qs h mode st
            = (st\<lparr>currentMode := mode, elements := clear_active (elements st)\<rparr>,
               Threw TypeError)"
    by (simp add: setMode_def Let_def)
next
  assume "css_plain mode \<and> list_all (\<lambda>e. data_mode e \<noteq> Some mode) (elements st)"
  then have "attr_query (mode_selector mode) (clear_active (elements st)) = Inr None"
    using attr_query_no_match by blast
  then show "setMode attr_query h mode st
            = (st\<lparr>currentMode := mode, elements := clear_active (elements st)\<rparr>,
               Threw TypeError)"
    by (simp add: setMode_def Let_def)
next
  assume "qs (mode_selector mode) (clear_active (elements st)) = Inr (Some i)"
  then show "snd (setMode qs h mode st) = Returned"
    by (simp add: setMode_def Let_def)
qed

theorem setMode_unmatched_witness:
  "setMode attr_query std_host (js ''xyz'') sample_chat
     = (sample_chat\<lparr>currentMode := js ''xyz'',
                    elements := clear_active (elements sample_chat)\<rparr>, Threw TypeError)
   \<and> snd (setMode attr_query std_host (js ''gita'') sample_chat) = Returned"
proof -
  have a: "css_plain (js ''xyz'')
           \<and> list_all (\<lambda>e. data_mode e \<noteq> Some (js ''xyz'')) (elements sample_chat)"
    by (simp add: css_plain_def sample_chat_def js_def)
  have b: "attr_query (mode_selector (js ''gita'')) (clear_active (elements sample_chat))
             = Inr (Some 1)"
    by (simp add: attr_query_def Let_def mode_selector_inverse css_plain_def clear_active_def
        sample_chat_def js_def)
  show ?thesis
    using a b setMode_unmatched [of attr_query "js ''xyz''" sample_chat std_host 1]
      setMode_unmatched [of attr_query "js ''gita''" sample_chat std_host 1]
    by blast
qed

text \<open>
  C10 as stated fails in \<open>sample_chat\<close>: \<open>setMode("xyz")\<close> throws, but the page has
  changed by then: the button of the mode \<open>normal\<close>, active before the call, has lost
  its active indicator.
\<close>

theorem setMode_unmatched_counterexample:
  "snd (setMode attr_query std_host (js ''xyz'') sample_chat) = Threw TypeError
   \<and> currentMode (fst (setMode attr_query std_host (js ''xyz'') sample_chat)) = js ''xyz''
   \<and> map active (elements sample_chat) = [True, False]
   \<and> map active (elements (fst (setMode attr_query std_host (js ''xyz'') sample_chat)))
       = [False, False]"
  by (simp add: chat_eval js_def)

end
